theory Spec2Isabelle
  imports Main "HOL-Library.AList"
begin

section \<open>Values, exceptions and log records\<close>

text \<open>
  The repository consists of two classes: \<open>WebAPI\<close> (my_internet_resource.py) and
  \<open>MyPreprocessor\<close> (my_preprocessor.py). Both delegate to library calls
  (\<open>requests\<close>, \<open>pandas\<close>) and log what they do. The library calls are
  modelled by their documented behaviour on the fragment of data the classes handle; the
  methods themselves are translated statement by statement.

  A table cell is an integer, a text or the missing-value marker \<open>NaN\<close>.
\<close>

datatype cell = IntV int | StrV string | NaN

text \<open>
  Python's \<open>==\<close> on cells: \<open>NaN\<close> is not equal to anything, itself included.
  \<open>key in array\<close> on a numpy array is \<open>(array == key).any()\<close>.
\<close>

definition py_eq :: "cell \<Rightarrow> cell \<Rightarrow> bool" where
  "py_eq a b = (a = b \<and> a \<noteq> NaN)"

definition py_in :: "cell \<Rightarrow> cell list \<Rightarrow> bool" where
  "py_in key array = list_ex (\<lambda>x. py_eq x key) array"

text \<open>Every exception modelled here is a subclass of Python's \<open>Exception\<close>.\<close>

datatype py_error =
    Exception
  | ValueError
  | TypeError
  | FileNotFoundError
  | EmptyDataError
  | ParserError
  | JSONDecodeError
  | NotImplementedError

datatype level = DEBUG | INFO | ERROR

text \<open>
  One constructor per message template of the two modules; the values interpolated into
  the f-strings are the constructor's arguments.
\<close>

datatype message =
    Instance_created string
  | Method_invoked string
  | Connection_failed
  | Connection_succeeded
  | Status_code int
  | Status_reason string
  | No_import_scheme
  | Too_many_import_schemes
  | Dictionary_passed
  | Created_from_dictionary
  | Extension_identified string
  | Csv_read
  | Excel_read
  | Extension_unsupported string
  | Saved_to string
  | Column_existent string
  | Column_nonexistent string
  | Dropped_column string
  | Renamed_column string string
  | Duplicate_rows_dropped int
  | Na_rows_dropped int
  | User_rows_dropped int
  | Remaining_rows int
  | Label_existent cell
  | Dropped_row cell
  | Row_nonexistent cell
  | No_recoding_scheme
  | Too_many_recoding_schemes
  | Unique_values_in string nat
  | Auto_recoded string int
  | User_recoded string int
  | Coding_plan "(cell \<times> cell) list"
  | Value_existent cell
  | Value_nonexistent cell

type_synonym log = "(level \<times> message) list"

text \<open>
  Truthiness of an optional keyword argument whose default is \<open>False\<close>: the default
  and an empty container (an empty dict, list or string) are falsy.
\<close>

fun truthy :: "'a list option \<Rightarrow> bool" where
  "truthy None = False"
| "truthy (Some []) = False"
| "truthy (Some (x # xs)) = True"

section \<open>The web resource (my_internet_resource.py)\<close>

text \<open>
  The stored \<open>requests\<close> response: its status code, its reason phrase, and the
  outcome of calling \<open>.json()\<close> on it (the parsed body, or the exception the parser
  raises).
\<close>

record 'j Response =
  status_code :: int
  reason :: string
  json :: "py_error + 'j"

record 'j WebAPI =
  my_data :: "'j Response"

text \<open>
  The suite of the \<open>try\<close> statement of \<open>data_import\<close>: \<open>Inl\<close> is an
  exception raised inside the suite, \<open>Inr\<close> the value of its \<open>return\<close>.
\<close>

definition data_import_try :: "'j WebAPI \<Rightarrow> log \<Rightarrow> (py_error + 'j) \<times> log" where
  "data_import_try self lg =
     (if status_code (my_data self) \<noteq> 200
      then (Inl Exception, lg @ [(DEBUG, Connection_failed)])
      else (json (my_data self), lg @ [(DEBUG, Connection_succeeded)]))"

text \<open>
  \<open>data_import\<close>: the \<open>except Exception\<close> clause handles whatever the suite
  raised, logs two errors and falls off the end of the method, which returns \<open>None\<close>.
  The outer \<open>Inl\<close> would be an exception leaving the method.
\<close>

definition data_import :: "'j WebAPI \<Rightarrow> log \<Rightarrow> (py_error + 'j option) \<times> log" where
  "data_import self lg0 =
     (let lg = lg0 @ [(INFO, Method_invoked ''data_import'')] in
      case data_import_try self lg of
        (Inr j, lg1) \<Rightarrow> (Inr (Some j), lg1)
      | (Inl e, lg1) \<Rightarrow>
          (Inr None,
           lg1 @ [(ERROR, Status_code (status_code (my_data self))),
                  (ERROR, Status_reason (reason (my_data self)))]))"

section \<open>Tables\<close>

text \<open>
  A pandas \<open>DataFrame\<close>: the column labels, the row labels, and the rows. The cell of
  a row under a label is found by pairing the row with the column labels. A row label is
  a cell: an integer of the default \<open>RangeIndex\<close>, or whatever a loaded file
  supplies. Row labels are looked up by value, a missing label included.
\<close>

record DataFrame =
  columns :: "string list"
  index :: "cell list"
  data :: "cell list list"

text \<open>\<open>pd.DataFrame()\<close>, \<open>df.shape[0]\<close>, and the default \<open>RangeIndex\<close>.\<close>

definition empty_frame :: DataFrame where
  "empty_frame = \<lparr>columns = [], index = [], data = []\<rparr>"

definition shape0 :: "DataFrame \<Rightarrow> int" where
  "shape0 df = int (length (index df))"

definition range_index :: "nat \<Rightarrow> cell list" where
  "range_index n = map (\<lambda>i. IntV (int i)) [0..<n]"

text \<open>
  \<open>df[c]\<close> as the list of the cells stored under label \<open>c\<close>. It is a Series (one
  column) exactly when the label names one column.
\<close>

definition row_cells :: "string list \<Rightarrow> string \<Rightarrow> cell list \<Rightarrow> cell list" where
  "row_cells cols c r = map snd (filter (\<lambda>(l, v). l = c) (zip cols r))"

definition column_values :: "DataFrame \<Rightarrow> string \<Rightarrow> cell list" where
  "column_values df c = concat (map (row_cells (columns df) c) (data df))"

text \<open>
  \<open>pd.unique\<close>: the distinct values in order of first appearance; all \<open>NaN\<close>
  count as one value.
\<close>

fun unique_from :: "cell list \<Rightarrow> cell list \<Rightarrow> cell list" where
  "unique_from seen [] = []"
| "unique_from seen (x # xs) =
     (if x \<in> set seen then unique_from seen xs else x # unique_from (x # seen) xs)"

definition pd_unique :: "cell list \<Rightarrow> cell list" where
  "pd_unique xs = unique_from [] xs"

text \<open>
  \<open>pd.unique(df[c])\<close> as the method \<open>recode\<close> calls it: when the label is
  duplicated \<open>df[c]\<close> is a frame, not a Series, which \<open>pd.unique\<close> rejects.
\<close>

definition unique_of_column :: "DataFrame \<Rightarrow> string \<Rightarrow> py_error + cell list" where
  "unique_of_column df c =
     (if count_list (columns df) c = 1 then Inr (pd_unique (column_values df c))
      else Inl TypeError)"

text \<open>
  \<open>df.replace(to_replace = {c: d}, inplace = True)\<close>: in every column labelled
  \<open>c\<close>, each cell that is a key of \<open>d\<close> becomes the value of that key. The
  matches are taken on the cells as they were before the call, and \<open>NaN\<close> as a key
  matches the missing cells.
\<close>

definition replace_cell :: "(cell \<times> cell) list \<Rightarrow> cell \<Rightarrow> cell" where
  "replace_cell d v = (case map_of d v of None \<Rightarrow> v | Some w \<Rightarrow> w)"

definition replace_row ::
  "string list \<Rightarrow> string \<Rightarrow> (cell \<times> cell) list \<Rightarrow> cell list \<Rightarrow> cell list" where
  "replace_row cols c d r = map (\<lambda>(l, v). if l = c then replace_cell d v else v) (zip cols r)"

definition replace_column :: "string \<Rightarrow> (cell \<times> cell) list \<Rightarrow> DataFrame \<Rightarrow> DataFrame" where
  "replace_column c d df = df\<lparr>data := map (replace_row (columns df) c d) (data df)\<rparr>"

text \<open>\<open>df.drop(columns = c, inplace = True)\<close>: every column labelled \<open>c\<close> goes.\<close>

definition drop_column :: "string \<Rightarrow> DataFrame \<Rightarrow> DataFrame" where
  "drop_column c df =
     df\<lparr>columns := filter (\<lambda>l. l \<noteq> c) (columns df),
        data := map (\<lambda>r. map snd (filter (\<lambda>(l, v). l \<noteq> c) (zip (columns df) r))) (data df)\<rparr>"

text \<open>\<open>df.rename(columns = {old: new}, inplace = True)\<close>.\<close>

definition rename_column :: "string \<Rightarrow> string \<Rightarrow> DataFrame \<Rightarrow> DataFrame" where
  "rename_column old new df = df\<lparr>columns := map (\<lambda>l. if l = old then new else l) (columns df)\<rparr>"

text \<open>\<open>df.drop(index = label, inplace = True)\<close>: every row labelled \<open>label\<close> goes.\<close>

definition drop_row :: "cell \<Rightarrow> DataFrame \<Rightarrow> DataFrame" where
  "drop_row label df =
     df\<lparr>index := map fst (filter (\<lambda>(i, r). i \<noteq> label) (zip (index df) (data df))),
        data := map snd (filter (\<lambda>(i, r). i \<noteq> label) (zip (index df) (data df)))\<rparr>"

text \<open>
  \<open>df.drop_duplicates(inplace = True, ignore_index = True)\<close>: a row equal in all
  columns to an earlier row goes (missing cells compare equal to each other), and the
  remaining rows are labelled \<open>0, 1, ...\<close>.
\<close>

fun first_occurrences :: "cell list list \<Rightarrow> cell list list \<Rightarrow> cell list list" where
  "first_occurrences seen [] = []"
| "first_occurrences seen (r # rs) =
     (if r \<in> set seen then first_occurrences seen rs
      else r # first_occurrences (r # seen) rs)"

definition drop_duplicates :: "DataFrame \<Rightarrow> DataFrame" where
  "drop_duplicates df =
     (let rows = first_occurrences [] (data df)
      in df\<lparr>index := range_index (length rows), data := rows\<rparr>)"

text \<open>\<open>df.dropna(inplace = True, ignore_index = True)\<close>.\<close>

definition dropna :: "DataFrame \<Rightarrow> DataFrame" where
  "dropna df =
     (let rows = filter (\<lambda>r. NaN \<notin> set r) (data df)
      in df\<lparr>index := range_index (length rows), data := rows\<rparr>)"

text \<open>
  \<open>pd.DataFrame.from_dict(dictionary)\<close> for a dict of lists, given as its items in
  insertion order: the keys become the columns, the rows get the default labels, and
  lists of different lengths raise \<open>ValueError\<close>.
\<close>

definition from_dict :: "(string \<times> cell list) list \<Rightarrow> py_error + DataFrame" where
  "from_dict d =
     (case d of
        [] \<Rightarrow> Inr empty_frame
      | (k, vs) # rest \<Rightarrow>
          if list_all (\<lambda>(k', ws). length ws = length vs) rest
          then Inr \<lparr>columns = map fst d,
                    index = range_index (length vs),
                    data = map (\<lambda>i. map (\<lambda>(k', ws). ws ! i) d) [0..<length vs]\<rparr>
          else Inl ValueError)"

section \<open>Files\<close>

text \<open>
  A file is what its bytes encode: the records of a comma-separated file, each a list of
  text fields, or the grid of typed cells of a spreadsheet. The first record or row is
  the header. Reading a path that holds no file raises; writing always succeeds and
  replaces what the path held.
\<close>

datatype stored_file = CsvFile "string list list" | XlsxFile "cell list list"

text \<open>\<open>path.rsplit(".")[-1]\<close>: the text after the last dot, or the whole path.\<close>

definition file_extension :: "string \<Rightarrow> string" where
  "file_extension path = rev (takeWhile (\<lambda>c. c \<noteq> CHR ''.'') (rev path))"

text \<open>Decimal notation of integers, written and read.\<close>

definition digit :: "nat \<Rightarrow> char" where
  "digit n = ''0123456789'' ! n"

function str_nat :: "nat \<Rightarrow> string" where
  "str_nat n = (if n < 10 then [digit n] else str_nat (n div 10) @ [digit (n mod 10)])"
  by pat_completeness auto
termination
  by (relation "measure id") auto

declare str_nat.simps [simp del]

definition str_int :: "int \<Rightarrow> string" where
  "str_int i = (if i < 0 then CHR ''-'' # str_nat (nat (- i)) else str_nat (nat i))"

definition digit_value :: "char \<Rightarrow> nat option" where
  "digit_value c = map_of (zip ''0123456789'' [0..<10]) c"

fun nat_of_digits :: "nat \<Rightarrow> string \<Rightarrow> nat option" where
  "nat_of_digits acc [] = Some acc"
| "nat_of_digits acc (c # cs) =
     (case digit_value c of None \<Rightarrow> None | Some v \<Rightarrow> nat_of_digits (10 * acc + v) cs)"

fun int_of_str :: "string \<Rightarrow> int option" where
  "int_of_str [] = None"
| "int_of_str (c # cs) =
     (if c = CHR ''-'' then (if cs = [] then None else map_option (\<lambda>n. - int n) (nat_of_digits 0 cs))
      else if c = CHR ''+'' then (if cs = [] then None else map_option int (nat_of_digits 0 cs))
      else map_option int (nat_of_digits 0 (c # cs)))"

text \<open>
  The header of a file read by pandas. A blank name at position \<open>i\<close> becomes
  \<open>Unnamed: i\<close>. Then the names are made distinct, the given names before the
  filled-in ones: \<open>counts\<close> tells how often a name has been used, and a name
  already used gets the suffixes \<open>.1\<close>, \<open>.2\<close>, ... until the result is not
  in the header. This is the \<open>while cur_count > 0\<close> loop of the parser; it need not
  end for arbitrary \<open>counts\<close>, so not returning is the value \<open>None\<close>.
\<close>

definition unnamed_filled :: "string list \<Rightarrow> string list" where
  "unnamed_filled h =
     map (\<lambda>(i, n). if n = [] then ''Unnamed: '' @ str_nat i else n) (zip [0..<length h] h)"

definition col_loop_order :: "string list \<Rightarrow> nat list" where
  "col_loop_order h =
     filter (\<lambda>i. h ! i \<noteq> []) [0..<length h] @ filter (\<lambda>i. h ! i = []) [0..<length h]"

partial_function (option) mangle_while ::
  "string list \<Rightarrow> string \<Rightarrow> (string \<Rightarrow> nat) \<Rightarrow> nat \<Rightarrow> string
     \<Rightarrow> (string \<times> nat \<times> (string \<Rightarrow> nat)) option" where
  "mangle_while this_header old_col counts cur_count col =
     (if 0 < cur_count then
        (if old_col @ ''.'' @ str_nat cur_count \<in> set this_header
         then mangle_while this_header old_col (counts(old_col := cur_count + 1))
                (cur_count + 1) (old_col @ ''.'' @ str_nat cur_count)
         else mangle_while this_header old_col (counts(old_col := cur_count + 1))
                ((counts(old_col := cur_count + 1)) (old_col @ ''.'' @ str_nat cur_count))
                (old_col @ ''.'' @ str_nat cur_count))
      else Some (col, cur_count, counts))"

declare mangle_while.simps [code]

fun mangle_for :: "nat list \<Rightarrow> string list \<Rightarrow> (string \<Rightarrow> nat) \<Rightarrow> string list option" where
  "mangle_for [] this_header counts = Some this_header"
| "mangle_for (i # order) this_header counts =
     (case mangle_while this_header (this_header ! i) counts (counts (this_header ! i))
             (this_header ! i) of
        None \<Rightarrow> None
      | Some (col, cur_count, counts1) \<Rightarrow>
          mangle_for order (this_header[i := col]) (counts1(col := cur_count + 1)))"

definition mangle_dupe_cols :: "string list \<Rightarrow> string list option" where
  "mangle_dupe_cols h = mangle_for (col_loop_order h) (unnamed_filled h) (\<lambda>n. 0)"

text \<open>
  On a header the loops always end (\<open>mangle_dupe_cols_returns\<close> below), so the names of
  a header are the value they return.
\<close>

definition header_names :: "string list \<Rightarrow> string list" where
  "header_names h = the (mangle_dupe_cols h)"

subsection \<open>Comma-separated files\<close>

text \<open>
  \<open>df.to_csv(path)\<close> writes a header whose first field is blank, then one record per
  row: the row label and the cells, a missing cell as an empty field.
\<close>

definition csv_field :: "cell \<Rightarrow> string" where
  "csv_field v = (case v of IntV i \<Rightarrow> str_int i | StrV s \<Rightarrow> s | NaN \<Rightarrow> [])"

definition to_csv :: "DataFrame \<Rightarrow> stored_file" where
  "to_csv df =
     CsvFile (([] # columns df) #
              map (\<lambda>(i, r). csv_field i # map csv_field r) (zip (index df) (data df)))"

text \<open>
  \<open>pd.read_csv(path)\<close>. The fields pandas reads as missing by default are listed
  in \<open>na_values\<close>. A column whose fields are all integers or missing is numeric,
  any other column keeps its fields as text. The table is as wide as the header or the
  first data record, whichever is longer; a shorter record is filled with missing
  fields, a longer one is rejected. When the first data record is longer than the
  header by one field, the leading field of every record becomes its row label;
  otherwise the rows get the default labels. A first data record longer by two or more
  fields would give row labels of several levels; tables with such labels are left out
  of this model, which answers \<open>NotImplementedError\<close> there.
\<close>

definition na_values :: "string list" where
  "na_values = [[], ''#N/A'', ''#N/A N/A'', ''#NA'', ''-1.#IND'', ''-1.#QNAN'', ''-NaN'',
     ''-nan'', ''1.#IND'', ''1.#QNAN'', ''<NA>'', ''N/A'', ''NA'', ''NULL'', ''NaN'', ''None'',
     ''n/a'', ''nan'', ''null'']"

definition pad_record :: "nat \<Rightarrow> string list \<Rightarrow> string list" where
  "pad_record n r = r @ replicate (n - length r) []"

definition numeric_column :: "string list list \<Rightarrow> nat \<Rightarrow> bool" where
  "numeric_column rows j =
     list_all (\<lambda>r. r ! j \<in> set na_values \<or> int_of_str (r ! j) \<noteq> None) rows"

definition csv_cell :: "bool \<Rightarrow> string \<Rightarrow> cell" where
  "csv_cell numeric f =
     (if f \<in> set na_values then NaN
      else if numeric then (case int_of_str f of Some i \<Rightarrow> IntV i | None \<Rightarrow> StrV f)
      else StrV f)"

definition read_csv :: "stored_file option \<Rightarrow> py_error + DataFrame" where
  "read_csv f =
     (case f of
        None \<Rightarrow> Inl FileNotFoundError
      | Some (XlsxFile g) \<Rightarrow> Inl ParserError
      | Some (CsvFile []) \<Rightarrow> Inl EmptyDataError
      | Some (CsvFile (h # recs)) \<Rightarrow>
          (let width = (case recs of [] \<Rightarrow> length h | r # rest \<Rightarrow> max (length h) (length r));
               leading = width - length h
           in if list_ex (\<lambda>r. width < length r) recs then Inl ParserError
              else if 1 < leading then Inl NotImplementedError
              else
                (let rows = map (pad_record width) recs;
                     numeric = map (numeric_column rows) [0..<width];
                     cells = map (\<lambda>r. map (\<lambda>(b, x). csv_cell b x) (zip numeric r)) rows
                 in Inr \<lparr>columns = header_names h,
                          index = (if leading = 1 then concat (map (take 1) cells)
                                   else range_index (length rows)),
                          data = map (drop leading) cells\<rparr>)))"

subsection \<open>Spreadsheets\<close>

text \<open>
  \<open>df.to_excel(path)\<close> and \<open>pd.read_excel(path)\<close>: the sheet holds typed cells, a
  blank header cell above the row labels, and is as wide as its longest row.
\<close>

definition to_excel :: "DataFrame \<Rightarrow> stored_file" where
  "to_excel df =
     XlsxFile ((NaN # map StrV (columns df)) #
               map (\<lambda>(i, r). i # r) (zip (index df) (data df)))"

definition pad_row :: "nat \<Rightarrow> cell list \<Rightarrow> cell list" where
  "pad_row n r = r @ replicate (n - length r) NaN"

definition read_excel :: "stored_file option \<Rightarrow> py_error + DataFrame" where
  "read_excel f =
     (case f of
        None \<Rightarrow> Inl FileNotFoundError
      | Some (CsvFile recs) \<Rightarrow> Inl ValueError
      | Some (XlsxFile []) \<Rightarrow> Inr empty_frame
      | Some (XlsxFile (h # rows)) \<Rightarrow>
          (let w = foldr max (map length (h # rows)) 0
           in Inr \<lparr>columns = header_names (map csv_field (pad_row w h)),
                    index = range_index (length rows),
                    data = map (pad_row w) rows\<rparr>))"

section \<open>The preprocessor (my_preprocessor.py)\<close>

text \<open>
  The instance holds the table and the stored row count. The records it has sent to the
  module's logger and the files it can reach are carried along with it.
\<close>

record MyPreprocessor =
  my_df :: DataFrame
  my_df_rows :: int
  logged :: log
  files :: "string \<rightharpoonup> stored_file"

definition emit :: "level \<Rightarrow> message \<Rightarrow> MyPreprocessor \<Rightarrow> MyPreprocessor" where
  "emit lvl m self = self\<lparr>logged := logged self @ [(lvl, m)]\<rparr>"

definition init :: "(string \<rightharpoonup> stored_file) \<Rightarrow> MyPreprocessor" where
  "init fs =
     \<lparr>my_df = empty_frame, my_df_rows = shape0 empty_frame,
      logged = [(INFO, Instance_created ''MyPreprocessor'')], files = fs\<rparr>"

subsection \<open>create_df\<close>

text \<open>The suite of \<open>if dictionary:\<close>.\<close>

fun create_from_dictionary ::
  "(string \<times> cell list) list option \<Rightarrow> MyPreprocessor \<Rightarrow> py_error + MyPreprocessor" where
  "create_from_dictionary (Some (kv # d)) self =
     (case from_dict (kv # d) of
        Inl e \<Rightarrow> Inl e
      | Inr df \<Rightarrow>
          Inr (emit INFO Created_from_dictionary
                ((emit DEBUG Dictionary_passed self)\<lparr>my_df := df\<rparr>)))"
| "create_from_dictionary _ self = Inr self"

text \<open>The suite of \<open>if path:\<close>.\<close>

fun create_from_path :: "string option \<Rightarrow> MyPreprocessor \<Rightarrow> py_error + MyPreprocessor" where
  "create_from_path (Some (c # p)) self =
     (let path = c # p; ext = file_extension path in
      if ext = ''csv'' then
        (case read_csv (files self path) of
           Inl e \<Rightarrow> Inl e
         | Inr df \<Rightarrow>
             Inr (emit INFO Csv_read ((emit DEBUG (Extension_identified ext) self)\<lparr>my_df := df\<rparr>)))
      else if ext = ''xlsx'' then
        (case read_excel (files self path) of
           Inl e \<Rightarrow> Inl e
         | Inr df \<Rightarrow>
             Inr (emit INFO Excel_read ((emit DEBUG (Extension_identified ext) self)\<lparr>my_df := df\<rparr>)))
      else Inr (emit ERROR (Extension_unsupported ext) self))"
| "create_from_path _ self = Inr self"

definition create_df ::
  "(string \<times> cell list) list option \<Rightarrow> string option \<Rightarrow> MyPreprocessor
     \<Rightarrow> py_error + MyPreprocessor" where
  "create_df dictionary path self0 =
     (let self = emit INFO (Method_invoked ''create_df'') self0 in
      if \<not> truthy dictionary \<and> \<not> truthy path then Inr (emit ERROR No_import_scheme self)
      else if truthy dictionary \<and> truthy path then Inr (emit ERROR Too_many_import_schemes self)
      else
        (case create_from_dictionary dictionary self of
           Inl e \<Rightarrow> Inl e
         | Inr self1 \<Rightarrow> create_from_path path self1))"

subsection \<open>save_df\<close>

definition save_df :: "string \<Rightarrow> MyPreprocessor \<Rightarrow> MyPreprocessor" where
  "save_df path self0 =
     (let self = emit INFO (Method_invoked ''save_df'') self0; ext = file_extension path in
      if ext = ''csv'' then
        emit INFO (Saved_to path)
          ((emit DEBUG (Extension_identified ext) self)
             \<lparr>files := (files self)(path \<mapsto> to_csv (my_df self))\<rparr>)
      else if ext = ''xlsx'' then
        emit INFO (Saved_to path)
          ((emit DEBUG (Extension_identified ext) self)
             \<lparr>files := (files self)(path \<mapsto> to_excel (my_df self))\<rparr>)
      else emit ERROR (Extension_unsupported ext) self)"

text \<open>The default of the keyword argument \<open>path\<close>.\<close>

definition save_df_default :: "MyPreprocessor \<Rightarrow> MyPreprocessor" where
  "save_df_default = save_df ''./my_data.csv''"

subsection \<open>drop_cols and rename_cols\<close>

fun drop_cols_loop :: "string list \<Rightarrow> MyPreprocessor \<Rightarrow> MyPreprocessor" where
  "drop_cols_loop [] self = self"
| "drop_cols_loop (label # labels) self =
     drop_cols_loop labels
       (if label \<in> set (columns (my_df self))
        then emit INFO (Dropped_column label)
               ((emit DEBUG (Column_existent label) self)
                  \<lparr>my_df := drop_column label (my_df self)\<rparr>)
        else emit ERROR (Column_nonexistent label) self)"

definition drop_cols :: "string list \<Rightarrow> MyPreprocessor \<Rightarrow> MyPreprocessor" where
  "drop_cols labels self = drop_cols_loop labels (emit INFO (Method_invoked ''drop_cols'') self)"

text \<open>
  The dict \<open>labels\<close> of \<open>rename_cols\<close> is given as its items in insertion order, so
  that \<open>labels[key]\<close> is the second component of the item of \<open>key\<close>.
\<close>

fun rename_cols_loop :: "(string \<times> string) list \<Rightarrow> MyPreprocessor \<Rightarrow> MyPreprocessor" where
  "rename_cols_loop [] self = self"
| "rename_cols_loop ((key, new) # labels) self =
     rename_cols_loop labels
       (if key \<in> set (columns (my_df self))
        then emit INFO (Renamed_column key new)
               ((emit DEBUG (Column_existent key) self)
                  \<lparr>my_df := rename_column key new (my_df self)\<rparr>)
        else emit ERROR (Column_nonexistent key) self)"

definition rename_cols :: "(string \<times> string) list \<Rightarrow> MyPreprocessor \<Rightarrow> MyPreprocessor" where
  "rename_cols labels self =
     rename_cols_loop labels (emit INFO (Method_invoked ''rename_cols'') self)"

subsection \<open>drop_rows\<close>

text \<open>The suites of \<open>if dupl:\<close> and \<open>if na:\<close>.\<close>

definition drop_rows_dupl :: "MyPreprocessor \<Rightarrow> MyPreprocessor" where
  "drop_rows_dupl self0 =
     (let self1 = self0\<lparr>my_df := drop_duplicates (my_df self0)\<rparr>;
          self2 = emit INFO (Duplicate_rows_dropped (my_df_rows self1 - shape0 (my_df self1))) self1;
          self3 = self2\<lparr>my_df_rows := my_df_rows self2 - (my_df_rows self2 - shape0 (my_df self2))\<rparr>
      in emit INFO (Remaining_rows (my_df_rows self3)) self3)"

definition drop_rows_na :: "MyPreprocessor \<Rightarrow> MyPreprocessor" where
  "drop_rows_na self0 =
     (let self1 = self0\<lparr>my_df := dropna (my_df self0)\<rparr>;
          self2 = emit INFO (Na_rows_dropped (my_df_rows self1 - shape0 (my_df self1))) self1;
          self3 = self2\<lparr>my_df_rows := my_df_rows self2 - (my_df_rows self2 - shape0 (my_df self2))\<rparr>
      in emit INFO (Remaining_rows (my_df_rows self3)) self3)"

text \<open>The suite of \<open>if labels:\<close>, with its loop over the row labels.\<close>

fun drop_rows_loop :: "cell list \<Rightarrow> MyPreprocessor \<Rightarrow> MyPreprocessor" where
  "drop_rows_loop [] self = self"
| "drop_rows_loop (label # labels) self =
     drop_rows_loop labels
       (if label \<in> set (index (my_df self))
        then emit INFO (Dropped_row label)
               ((emit DEBUG (Label_existent label) self)
                  \<lparr>my_df := drop_row label (my_df self)\<rparr>)
        else emit ERROR (Row_nonexistent label) self)"

definition drop_rows_labels :: "cell list \<Rightarrow> MyPreprocessor \<Rightarrow> MyPreprocessor" where
  "drop_rows_labels labels self0 =
     (let self1 = drop_rows_loop labels self0;
          self2 = emit INFO (User_rows_dropped (my_df_rows self1 - shape0 (my_df self1))) self1;
          self3 = self2\<lparr>my_df_rows := my_df_rows self2 - (my_df_rows self2 - shape0 (my_df self2))\<rparr>
      in emit INFO (Remaining_rows (my_df_rows self3)) self3)"

definition drop_rows ::
  "bool \<Rightarrow> bool \<Rightarrow> cell list option \<Rightarrow> MyPreprocessor \<Rightarrow> MyPreprocessor" where
  "drop_rows dupl na labels self0 =
     (let self1 = emit INFO (Method_invoked ''drop_rows'') self0;
          self2 = (if dupl then drop_rows_dupl self1 else self1);
          self3 = (if na then drop_rows_na self2 else self2)
      in case labels of
           Some (l # ls) \<Rightarrow> drop_rows_labels (l # ls) self3
         | _ \<Rightarrow> self3)"

subsection \<open>recode\<close>

text \<open>
  The loop that fills \<open>auto_dict\<close>. A Python dict is kept as its items in insertion
  order; \<open>d[k] = v\<close> overwrites the item of \<open>k\<close> or appends a new one.
\<close>

fun auto_loop :: "cell list \<Rightarrow> (cell \<times> cell) list \<Rightarrow> int \<Rightarrow> (cell \<times> cell) list \<times> int" where
  "auto_loop [] auto_dict my_counter = (auto_dict, my_counter)"
| "auto_loop (v # vs) auto_dict my_counter =
     auto_loop vs (AList.update v (IntV my_counter) auto_dict) (my_counter + 1)"

text \<open>The suite of \<open>if auto:\<close>.\<close>

definition recode_auto :: "string \<Rightarrow> MyPreprocessor \<Rightarrow> py_error + MyPreprocessor" where
  "recode_auto col_name self =
     (case unique_of_column (my_df self) col_name of
        Inl e \<Rightarrow> Inl e
      | Inr uniq \<Rightarrow>
          (let self1 = emit DEBUG (Unique_values_in col_name (length uniq)) self;
               plan = auto_loop uniq [] 0;
               self2 = self1\<lparr>my_df := replace_column col_name (fst plan) (my_df self1)\<rparr>;
               self3 = emit DEBUG (Auto_recoded col_name (snd plan)) self2
           in Inr (emit INFO (Coding_plan (fst plan)) self3)))"

text \<open>
  The loop over \<open>customized.keys()\<close> that fills \<open>corr_dict\<close>; \<open>uniq\<close> is
  \<open>pd.unique(self.my_df[col_name])\<close>, which the loop does not change.
\<close>

fun customized_loop ::
  "(cell \<times> cell) list \<Rightarrow> cell list \<Rightarrow> (cell \<times> cell) list \<Rightarrow> int \<Rightarrow> MyPreprocessor
     \<Rightarrow> ((cell \<times> cell) list \<times> int) \<times> MyPreprocessor" where
  "customized_loop [] uniq corr_dict my_counter self = ((corr_dict, my_counter), self)"
| "customized_loop ((key, new) # items) uniq corr_dict my_counter self =
     (if py_in key uniq
      then customized_loop items uniq (AList.update key new corr_dict) (my_counter + 1)
             (emit DEBUG (Value_existent key) self)
      else customized_loop items uniq corr_dict my_counter
             (emit ERROR (Value_nonexistent key) self))"

text \<open>The suite of \<open>if customized:\<close>.\<close>

fun recode_customized ::
  "string \<Rightarrow> (cell \<times> cell) list option \<Rightarrow> MyPreprocessor \<Rightarrow> py_error + MyPreprocessor" where
  "recode_customized col_name (Some (kv # m)) self =
     (case unique_of_column (my_df self) col_name of
        Inl e \<Rightarrow> Inl e
      | Inr uniq \<Rightarrow>
          (let self1 = emit DEBUG (Unique_values_in col_name (length uniq)) self;
               res = customized_loop (kv # m) uniq [] 0 self1;
               corr_dict = fst (fst res);
               my_counter = snd (fst res);
               self2 = (snd res)\<lparr>my_df := replace_column col_name corr_dict (my_df (snd res))\<rparr>;
               self3 = emit DEBUG (User_recoded col_name my_counter) self2
           in Inr (emit INFO (Coding_plan corr_dict) self3)))"
| "recode_customized col_name _ self = Inr self"

definition recode ::
  "string \<Rightarrow> bool \<Rightarrow> (cell \<times> cell) list option \<Rightarrow> MyPreprocessor
     \<Rightarrow> py_error + MyPreprocessor" where
  "recode col_name auto customized self0 =
     (let self = emit INFO (Method_invoked ''recode'') self0 in
      if col_name \<in> set (columns (my_df self)) then
        (let self1 = emit DEBUG (Column_existent col_name) self in
         if \<not> truthy customized \<and> \<not> auto then Inr (emit ERROR No_recoding_scheme self1)
         else if truthy customized \<and> auto then Inr (emit ERROR Too_many_recoding_schemes self1)
         else
           (case (if auto then recode_auto col_name self1 else Inr self1) of
              Inl e \<Rightarrow> Inl e
            | Inr self2 \<Rightarrow> recode_customized col_name customized self2))
      else Inr (emit ERROR (Column_nonexistent col_name) self))"

subsection \<open>Sequences of calls\<close>

text \<open>
  The public operations with their keyword arguments; \<open>None\<close> is an argument left at
  its default \<open>False\<close>. A sequence of calls stops at the first exception.
\<close>

datatype operation =
    Create_df "(string \<times> cell list) list option" "string option"
  | Save_df string
  | Drop_cols "string list"
  | Rename_cols "(string \<times> string) list"
  | Drop_rows bool bool "cell list option"
  | Recode string bool "(cell \<times> cell) list option"

fun call :: "operation \<Rightarrow> MyPreprocessor \<Rightarrow> py_error + MyPreprocessor" where
  "call (Create_df dictionary path) self = create_df dictionary path self"
| "call (Save_df path) self = Inr (save_df path self)"
| "call (Drop_cols labels) self = Inr (drop_cols labels self)"
| "call (Rename_cols labels) self = Inr (rename_cols labels self)"
| "call (Drop_rows dupl na labels) self = Inr (drop_rows dupl na labels self)"
| "call (Recode col_name auto customized) self = recode col_name auto customized self"

fun run :: "operation list \<Rightarrow> MyPreprocessor \<Rightarrow> py_error + MyPreprocessor" where
  "run [] self = Inr self"
| "run (op # ops) self = (case call op self of Inl e \<Rightarrow> Inl e | Inr self1 \<Rightarrow> run ops self1)"

section \<open>Notions the properties are stated with\<close>


text \<open>
  The integer a value gets in first-encounter order: the number of distinct values that
  occur in the column above the first occurrence of the value.
\<close>

definition encounter_code :: "cell list \<Rightarrow> cell \<Rightarrow> cell" where
  "encounter_code vals v = IntV (int (card (set (takeWhile (\<lambda>u. u \<noteq> v) vals))))"

text \<open>
  The records a call has added to the log, and the dropped-rows figures among them.
\<close>

definition new_records :: "MyPreprocessor \<Rightarrow> MyPreprocessor \<Rightarrow> log" where
  "new_records before after = drop (length (logged before)) (logged after)"

fun dropped_figure :: "level \<times> message \<Rightarrow> int option" where
  "dropped_figure (lvl, Duplicate_rows_dropped n) = Some n"
| "dropped_figure (lvl, Na_rows_dropped n) = Some n"
| "dropped_figure (lvl, User_rows_dropped n) = Some n"
| "dropped_figure (lvl, m) = None"

definition dropped_figures :: "log \<Rightarrow> int list" where
  "dropped_figures lg = List.map_filter dropped_figure lg"





text \<open>Whether a keyword argument was supplied at all, truthy or not.\<close>

definition supplied :: "'a option \<Rightarrow> bool" where
  "supplied a = (a \<noteq> None)"

section \<open>Example states\<close>

text \<open>A table with the one column \<open>c\<close> holding \<open>b, a, b, c\<close>.\<close>

definition letters_table :: MyPreprocessor where
  "letters_table =
     \<lparr>my_df = \<lparr>columns = [''c''], index = [IntV 0, IntV 1, IntV 2, IntV 3],
                data = [[StrV ''b''], [StrV ''a''], [StrV ''b''], [StrV ''c'']]\<rparr>,
      my_df_rows = 4, logged = [], files = Map.empty\<rparr>"

text \<open>A fresh instance that can reach one comma-separated file, \<open>t.csv\<close>.\<close>

definition one_file :: MyPreprocessor where
  "one_file = init [''t.csv'' \<mapsto> CsvFile [[''x''], [''1'']]]"


text \<open>A table whose one column \<open>c\<close> holds a missing value and the text \<open>a\<close>.\<close>

definition gaps_table :: MyPreprocessor where
  "gaps_table =
     \<lparr>my_df = \<lparr>columns = [''c''], index = [IntV 0, IntV 1], data = [[NaN], [StrV ''a'']]\<rparr>,
      my_df_rows = 2, logged = [], files = Map.empty\<rparr>"


section \<open>The extraction method of the web resource\<close>

text \<open>
  Claim C2. With status code 200 (and a body that parses) \<open>data_import\<close> returns the
  parsed JSON body; with any other status code it logs the status code and the reason
  phrase as errors and returns \<open>None\<close>; no exception reaches the caller.
\<close>

theorem data_import_by_status:
  "(status_code (my_data self) = 200 \<and> json (my_data self) = Inr j \<longrightarrow>
      data_import self lg =
        (Inr (Some j),
         lg @ [(INFO, Method_invoked ''data_import''), (DEBUG, Connection_succeeded)]))
   \<and> (status_code (my_data self) \<noteq> 200 \<longrightarrow>
      data_import self lg =
        (Inr None,
         lg @ [(INFO, Method_invoked ''data_import''), (DEBUG, Connection_failed),
               (ERROR, Status_code (status_code (my_data self))),
               (ERROR, Status_reason (reason (my_data self)))]))
   \<and> (\<exists>v. fst (data_import self lg) = Inr v)"
  by (auto simp add: data_import_def data_import_try_def Let_def split: sum.splits if_splits)

theorem data_import_by_status_witness:
  "data_import \<lparr>my_data = \<lparr>status_code = 200, reason = ''OK'', json = Inr [(''a'', 1::int)]\<rparr>\<rparr> []
     = (Inr (Some [(''a'', 1)]),
        [(INFO, Method_invoked ''data_import''), (DEBUG, Connection_succeeded)])
   \<and> data_import
        \<lparr>my_data = \<lparr>status_code = 404, reason = ''Not Found'',
                     json = (Inl JSONDecodeError :: py_error + (string \<times> int) list)\<rparr>\<rparr> []
     = (Inr None,
        [(INFO, Method_invoked ''data_import''), (DEBUG, Connection_failed),
         (ERROR, Status_code 404), (ERROR, Status_reason ''Not Found'')])"
  using data_import_by_status
          [of "\<lparr>my_data = \<lparr>status_code = 200, reason = ''OK'', json = Inr [(''a'', 1::int)]\<rparr>\<rparr>"
              "[(''a'', 1)]" "[]"]
        data_import_by_status
          [of "\<lparr>my_data = \<lparr>status_code = 404, reason = ''Not Found'',
                     json = (Inl JSONDecodeError :: py_error + (string \<times> int) list)\<rparr>\<rparr>"
              "[]" "[]"]
  by simp

text \<open>
  Claim C3 says that a body that fails to parse on a 200 response makes the parse error
  leave \<open>data_import\<close>. It does not: the \<open>return self.my_data.json()\<close> stands inside
  the \<open>try\<close> suite, so the \<open>except Exception\<close> clause catches the parse error.
\<close>

theorem json_failure_propagates_counterexample:
  "fst (data_import
          \<lparr>my_data = \<lparr>status_code = 200, reason = ''OK'',
                       json = (Inl JSONDecodeError :: py_error + unit)\<rparr>\<rparr> [])
     \<noteq> Inl JSONDecodeError
   \<and> fst (data_import
          \<lparr>my_data = \<lparr>status_code = 200, reason = ''OK'',
                       json = (Inl JSONDecodeError :: py_error + unit)\<rparr>\<rparr> [])
     = Inr None"
  by (simp add: data_import_def data_import_try_def)

text \<open>
  Claim C3, amended. When the status code is 200 and the body fails to parse, the parse
  error is caught by the method's one handler, the same that serves the other status
  codes: the status code 200 and the reason phrase are logged as errors, the method
  returns \<open>None\<close>, and no exception reaches the caller.
\<close>

theorem json_failure_is_handled:
  "status_code (my_data self) = 200 \<Longrightarrow> json (my_data self) = Inl e \<Longrightarrow>
     data_import self lg =
       (Inr None,
        lg @ [(INFO, Method_invoked ''data_import''), (DEBUG, Connection_succeeded),
              (ERROR, Status_code 200), (ERROR, Status_reason (reason (my_data self)))])"
  by (simp add: data_import_def data_import_try_def)

theorem json_failure_is_handled_witness:
  "data_import
     \<lparr>my_data = \<lparr>status_code = 200, reason = ''OK'',
                  json = (Inl JSONDecodeError :: py_error + unit)\<rparr>\<rparr> []
     = (Inr None,
        [(INFO, Method_invoked ''data_import''), (DEBUG, Connection_succeeded),
         (ERROR, Status_code 200), (ERROR, Status_reason ''OK'')])"
  using json_failure_is_handled
          [of "\<lparr>my_data = \<lparr>status_code = 200, reason = ''OK'',
                       json = (Inl JSONDecodeError :: py_error + unit)\<rparr>\<rparr>"
              JSONDecodeError "[]"]
  by simp

section \<open>Facts about the table operations\<close>

lemma range_index_simps [simp]:
  "range_index 0 = []"
  "range_index (Suc n) = range_index n @ [IntV (int n)]"
  by (simp_all add: range_index_def)

lemma emit_simps [simp]:
  "my_df (emit lvl m self) = my_df self"
  "my_df_rows (emit lvl m self) = my_df_rows self"
  "files (emit lvl m self) = files self"
  "logged (emit lvl m self) = logged self @ [(lvl, m)]"
  by (simp_all add: emit_def)



section \<open>Dropping duplicate rows\<close>


section \<open>Recoding a column\<close>

lemma row_cells_replace_row:
  "row_cells cols c (replace_row cols c d r) = map (replace_cell d) (row_cells cols c r)"
proof (induction cols arbitrary: r)
  case Nil
  show ?case by (simp add: row_cells_def replace_row_def)
next
  case (Cons l cols)
  show ?case
  proof (cases r)
    case Nil
    then show ?thesis by (simp add: row_cells_def replace_row_def)
  next
    case (Cons v vs)
    then show ?thesis
      using Cons.IH [of vs] by (simp add: row_cells_def replace_row_def)
  qed
qed

lemma row_cells_replace_row_other:
  "c' \<noteq> c \<Longrightarrow> row_cells cols c' (replace_row cols c d r) = row_cells cols c' r"
proof (induction cols arbitrary: r)
  case Nil
  show ?case by (simp add: row_cells_def replace_row_def)
next
  case (Cons l cols)
  show ?case
  proof (cases r)
    case Nil
    then show ?thesis by (simp add: row_cells_def replace_row_def)
  next
    case (Cons v vs)
    then show ?thesis
      using Cons.IH [of vs] Cons.prems by (simp add: row_cells_def replace_row_def)
  qed
qed

lemma column_values_replace_column:
  "column_values (replace_column c d df) c = map (replace_cell d) (column_values df c)"
  by (simp add: column_values_def replace_column_def map_concat comp_def row_cells_replace_row)

lemma column_values_replace_column_other:
  "c' \<noteq> c \<Longrightarrow> column_values (replace_column c d df) c' = column_values df c'"
  by (simp add: column_values_def replace_column_def comp_def row_cells_replace_row_other)

lemma set_unique_from: "set (unique_from seen xs) = set xs - set seen"
  by (induction xs arbitrary: seen) auto

lemma distinct_unique_from: "distinct (unique_from seen xs)"
  by (induction xs arbitrary: seen) (auto simp: set_unique_from)

lemma rank_unique_from:
  "v \<in> set xs \<Longrightarrow> v \<notin> set seen \<Longrightarrow>
     length (takeWhile (\<lambda>u. u \<noteq> v) (unique_from seen xs))
       = card (set (takeWhile (\<lambda>u. u \<noteq> v) xs) - set seen)"
proof (induction xs arbitrary: seen)
  case Nil
  then show ?case by simp
next
  case (Cons x xs)
  show ?case
  proof (cases "x = v")
    case True
    then show ?thesis using Cons.prems by simp
  next
    case False
    then have v: "v \<in> set xs" using Cons.prems by simp
    show ?thesis
    proof (cases "x \<in> set seen")
      case True
      have "insert x (set (takeWhile (\<lambda>u. u \<noteq> v) xs)) - set seen
              = set (takeWhile (\<lambda>u. u \<noteq> v) xs) - set seen"
        using True by auto
      then show ?thesis
        using True False Cons.IH [OF v Cons.prems(2)] by simp
    next
      case notin: False
      have v': "v \<notin> set (x # seen)" using False Cons.prems by auto
      have eq: "insert x (set (takeWhile (\<lambda>u. u \<noteq> v) xs)) - set seen
              = insert x (set (takeWhile (\<lambda>u. u \<noteq> v) xs) - set (x # seen))"
        using notin by auto
      have "card (insert x (set (takeWhile (\<lambda>u. u \<noteq> v) xs) - set (x # seen)))
              = Suc (card (set (takeWhile (\<lambda>u. u \<noteq> v) xs) - set (x # seen)))"
        by (rule card_insert_disjoint) auto
      then show ?thesis
        using notin False Cons.IH [OF v v'] eq by simp
    qed
  qed
qed

lemma auto_loop_other:
  "v \<notin> set vs \<Longrightarrow> map_of (fst (auto_loop vs d n)) v = map_of d v"
  by (induction vs arbitrary: d n) (auto simp: update_conv')

lemma auto_loop_code:
  "distinct vs \<Longrightarrow> v \<in> set vs \<Longrightarrow>
     map_of (fst (auto_loop vs d n)) v
       = Some (IntV (n + int (length (takeWhile (\<lambda>u. u \<noteq> v) vs))))"
proof (induction vs arbitrary: d n)
  case Nil
  then show ?case by simp
next
  case (Cons x xs)
  show ?case
  proof (cases "x = v")
    case True
    then have "v \<notin> set xs" using Cons.prems by simp
    then show ?thesis using True by (simp add: auto_loop_other update_conv')
  next
    case False
    then have "v \<in> set xs" and "distinct xs" using Cons.prems by simp_all
    then show ?thesis using False Cons.IH [of "AList.update x (IntV n) d" "n + 1"] by simp
  qed
qed

lemma auto_plan_is_encounter_code:
  assumes "v \<in> set vals"
  shows "replace_cell (fst (auto_loop (pd_unique vals) [] 0)) v = encounter_code vals v"
proof -
  have "v \<in> set (pd_unique vals)"
    using assms by (simp add: pd_unique_def set_unique_from)
  then have "map_of (fst (auto_loop (pd_unique vals) [] 0)) v
      = Some (IntV (0 + int (length (takeWhile (\<lambda>u. u \<noteq> v) (pd_unique vals)))))"
    using auto_loop_code [of "pd_unique vals" v "[]" 0]
    by (simp add: pd_unique_def distinct_unique_from)
  moreover have "length (takeWhile (\<lambda>u. u \<noteq> v) (pd_unique vals))
      = card (set (takeWhile (\<lambda>u. u \<noteq> v) vals))"
    using rank_unique_from [of v vals "[]"] assms by (simp add: pd_unique_def)
  ultimately show ?thesis
    by (simp add: replace_cell_def encounter_code_def)
qed

lemma recode_auto_table:
  assumes "count_list (columns (my_df self)) c = 1"
  shows "\<exists>self'. recode c True None self = Inr self'
      \<and> my_df self' = replace_column c (fst (auto_loop (pd_unique (column_values (my_df self) c)) [] 0)) (my_df self)"
proof -
  have "c \<in> set (columns (my_df self))"
    using assms count_list_0_iff [of "columns (my_df self)" c] by auto
  then show ?thesis
    using assms by (simp add: recode_def recode_auto_def unique_of_column_def Let_def)
qed

text \<open>
  Claim C1 says that automatic recoding works for every table and every existing column
  label. After \<open>rename_cols\<close> has given two columns the label \<open>b\<close>, the label
  exists, \<open>self.my_df["b"]\<close> is a table of two columns, not one column, and
  \<open>pd.unique\<close> raises on it.
\<close>

theorem recode_auto_duplicated_label_counterexample:
  "map_sum id (columns \<circ> my_df)
     (run [Create_df (Some [(''a'', [IntV 1]), (''b'', [IntV 2])]) None,
           Rename_cols [(''a'', ''b'')]] (init Map.empty))
     = Inr [''b'', ''b'']
   \<and> map_sum id (columns \<circ> my_df)
     (run [Create_df (Some [(''a'', [IntV 1]), (''b'', [IntV 2])]) None,
           Rename_cols [(''a'', ''b'')], Recode ''b'' True None] (init Map.empty))
     = Inl TypeError"
  by code_simp

text \<open>
  Claim C1, amended. For every table and every label \<open>c\<close> that names exactly one
  of its columns (as every existing label does when the column labels are distinct),
  \<open>recode(col_name=c, auto=True)\<close> returns normally and replaces every value of
  column \<open>c\<close> by its integer in first-encounter order (the first distinct value
  from the top gets 0, the second 1, and so on); the other columns, the column labels
  and the row labels stay. On the column values \<open>["b","a","b","c"]\<close> the result
  is \<open>[0,1,0,2]\<close>.
\<close>

theorem recode_auto_first_encounter:
  assumes "count_list (columns (my_df self)) c = 1"
  shows "\<exists>self'. recode c True None self = Inr self'
     \<and> column_values (my_df self') c
         = map (encounter_code (column_values (my_df self) c)) (column_values (my_df self) c)
     \<and> (\<forall>c'. c' \<noteq> c \<longrightarrow> column_values (my_df self') c' = column_values (my_df self) c')
     \<and> columns (my_df self') = columns (my_df self)
     \<and> index (my_df self') = index (my_df self)"
proof -
  obtain self' where r: "recode c True None self = Inr self'"
    and df: "my_df self' = replace_column c
               (fst (auto_loop (pd_unique (column_values (my_df self) c)) [] 0)) (my_df self)"
    using recode_auto_table [OF assms] by blast
  let ?vals = "column_values (my_df self) c"
  let ?plan = "fst (auto_loop (pd_unique ?vals) [] 0)"
  have "map (replace_cell ?plan) ?vals = map (encounter_code ?vals) ?vals"
    by (rule map_cong) (simp_all add: auto_plan_is_encounter_code)
  then have 1: "column_values (my_df self') c = map (encounter_code ?vals) ?vals"
    by (simp add: df column_values_replace_column)
  have 2: "\<forall>c'. c' \<noteq> c \<longrightarrow> column_values (my_df self') c' = column_values (my_df self) c'"
    by (simp add: df column_values_replace_column_other)
  have 3: "columns (my_df self') = columns (my_df self)" "index (my_df self') = index (my_df self)"
    by (simp_all add: df replace_column_def)
  show ?thesis
    using r 1 2 3 by blast
qed

theorem recode_auto_first_encounter_witness:
  "\<exists>self'. recode ''c'' True None
      \<lparr>my_df = \<lparr>columns = [''c''], index = [IntV 0, IntV 1, IntV 2, IntV 3],
                 data = [[StrV ''b''], [StrV ''a''], [StrV ''b''], [StrV ''c'']]\<rparr>,
       my_df_rows = 4, logged = [], files = Map.empty\<rparr> = Inr self'
     \<and> column_values (my_df self') ''c'' = [IntV 0, IntV 1, IntV 0, IntV 2]"
proof -
  let ?S = "\<lparr>my_df = \<lparr>columns = [''c''], index = [IntV 0, IntV 1, IntV 2, IntV 3],
                 data = [[StrV ''b''], [StrV ''a''], [StrV ''b''], [StrV ''c'']]\<rparr>,
       my_df_rows = 4, logged = [], files = Map.empty\<rparr>"
  have h: "count_list (columns (my_df ?S)) ''c'' = 1"
    by simp
  have v: "column_values (my_df ?S) ''c'' = [StrV ''b'', StrV ''a'', StrV ''b'', StrV ''c'']"
    by (simp add: column_values_def row_cells_def)
  have e: "map (encounter_code [StrV ''b'', StrV ''a'', StrV ''b'', StrV ''c''])
             [StrV ''b'', StrV ''a'', StrV ''b'', StrV ''c'']
           = [IntV 0, IntV 1, IntV 0, IntV 2]"
    by (simp add: encounter_code_def card_insert_if)
  show ?thesis
    using recode_auto_first_encounter [OF h] unfolding v e by blast
qed

section \<open>Presence of keyword arguments\<close>

lemma new_records_append [simp]:
  "logged after = logged before @ recs \<Longrightarrow> new_records before after = recs"
  by (simp add: new_records_def)

lemma recode_auto_outcome:
  assumes "count_list (columns (my_df self)) c = 1" and "\<not> truthy customized"
  shows "\<exists>self'. recode c True customized self = Inr self'
      \<and> my_df self' = replace_column c
            (fst (auto_loop (pd_unique (column_values (my_df self) c)) [] 0)) (my_df self)
      \<and> my_df_rows self' = my_df_rows self
      \<and> files self' = files self
      \<and> logged self' = logged self @
            [(INFO, Method_invoked ''recode''), (DEBUG, Column_existent c),
             (DEBUG, Unique_values_in c (length (pd_unique (column_values (my_df self) c)))),
             (DEBUG, Auto_recoded c (snd (auto_loop (pd_unique (column_values (my_df self) c)) [] 0))),
             (INFO, Coding_plan (fst (auto_loop (pd_unique (column_values (my_df self) c)) [] 0)))]"
proof -
  have c: "c \<in> set (columns (my_df self))"
    using assms(1) count_list_0_iff [of "columns (my_df self)" c] by auto
  have f: "\<And>s. recode_customized c customized s = Inr s"
    using assms(2) by (cases customized rule: truthy.cases) simp_all
  show ?thesis
    using assms c by (simp add: recode_def recode_auto_def unique_of_column_def Let_def f)
qed

lemma create_df_guard:
  assumes "truthy dictionary = truthy path"
  shows "create_df dictionary path self
     = Inr (emit ERROR (if truthy dictionary then Too_many_import_schemes else No_import_scheme)
             (emit INFO (Method_invoked ''create_df'') self))"
  using assms by (simp add: create_df_def Let_def)

lemma recode_guard:
  assumes "c \<in> set (columns (my_df self))" and "truthy customized = auto"
  shows "recode c auto customized self
     = Inr (emit ERROR (if auto then Too_many_recoding_schemes else No_recoding_scheme)
             (emit DEBUG (Column_existent c) (emit INFO (Method_invoked ''recode'') self)))"
  using assms by (auto simp add: recode_def Let_def)

lemma letters_table_facts:
  "count_list (columns (my_df letters_table)) ''c'' = 1"
  "''c'' \<in> set (columns (my_df letters_table))"
  "column_values (my_df letters_table) ''c'' = [StrV ''b'', StrV ''a'', StrV ''b'', StrV ''c'']"
  "encounter_code [StrV ''b'', StrV ''a'', StrV ''b'', StrV ''c''] (StrV ''b'') = IntV 0"
  "encounter_code [StrV ''b'', StrV ''a'', StrV ''b'', StrV ''c''] (StrV ''a'') = IntV 1"
  "encounter_code [StrV ''b'', StrV ''a'', StrV ''b'', StrV ''c''] (StrV ''c'') = IntV 2"
  by (simp_all add: letters_table_def column_values_def row_cells_def encounter_code_def
        card_insert_if)

text \<open>
  Claim C10. Presence of a keyword argument is decided by truthiness.
  \<open>create_df(dictionary={})\<close> and \<open>create_df(path="")\<close> are treated as no
  scheme specified: an error is logged and the table stays as it was, no empty table is
  installed. \<open>recode(col_name=c, auto=True, customized={})\<close> on an existing column
  does what \<open>recode(col_name=c, auto=True)\<close> does: it is not flagged as giving two
  schemes, and it recodes the column automatically.
\<close>

theorem presence_is_truthiness:
  "(\<exists>self'. create_df (Some []) None self = Inr self'
       \<and> create_df None (Some []) self = Inr self'
       \<and> my_df self' = my_df self
       \<and> new_records self self' = [(INFO, Method_invoked ''create_df''), (ERROR, No_import_scheme)])
   \<and> (c \<in> set (columns (my_df self)) \<longrightarrow>
        recode c True (Some []) self = recode c True None self)
   \<and> (count_list (columns (my_df self)) c = 1 \<longrightarrow>
        (\<exists>self'. recode c True (Some []) self = Inr self'
           \<and> column_values (my_df self') c
               = map (encounter_code (column_values (my_df self) c)) (column_values (my_df self) c)
           \<and> (ERROR, Too_many_recoding_schemes) \<notin> set (new_records self self')))"
proof -
  have 1: "\<exists>self'. create_df (Some []) None self = Inr self'
       \<and> create_df None (Some []) self = Inr self'
       \<and> my_df self' = my_df self
       \<and> new_records self self' = [(INFO, Method_invoked ''create_df''), (ERROR, No_import_scheme)]"
    by (simp add: create_df_guard)
  have 2: "c \<in> set (columns (my_df self)) \<longrightarrow>
        recode c True (Some []) self = recode c True None self"
    by (simp add: recode_def Let_def split: sum.splits)
  have 3: "\<exists>self'. recode c True (Some []) self = Inr self'
           \<and> column_values (my_df self') c
               = map (encounter_code (column_values (my_df self) c)) (column_values (my_df self) c)
           \<and> (ERROR, Too_many_recoding_schemes) \<notin> set (new_records self self')"
    if h: "count_list (columns (my_df self)) c = 1"
  proof -
    let ?vals = "column_values (my_df self) c"
    let ?plan = "fst (auto_loop (pd_unique ?vals) [] 0)"
    obtain self' where r: "recode c True (Some []) self = Inr self'"
      and df: "my_df self' = replace_column c ?plan (my_df self)"
      and lg: "logged self' = logged self @
            [(INFO, Method_invoked ''recode''), (DEBUG, Column_existent c),
             (DEBUG, Unique_values_in c (length (pd_unique ?vals))),
             (DEBUG, Auto_recoded c (snd (auto_loop (pd_unique ?vals) [] 0))),
             (INFO, Coding_plan ?plan)]"
      using recode_auto_outcome [OF h, of "Some []"] by auto
    have "map (replace_cell ?plan) ?vals = map (encounter_code ?vals) ?vals"
      by (rule map_cong) (simp_all add: auto_plan_is_encounter_code)
    then have "column_values (my_df self') c = map (encounter_code ?vals) ?vals"
      by (simp add: df column_values_replace_column)
    moreover have "(ERROR, Too_many_recoding_schemes) \<notin> set (new_records self self')"
      using new_records_append [OF lg] by simp
    ultimately show ?thesis using r by blast
  qed
  show ?thesis using 1 2 3 by blast
qed

theorem presence_is_truthiness_witness:
  "(\<exists>self'. create_df (Some []) None letters_table = Inr self'
       \<and> create_df None (Some []) letters_table = Inr self'
       \<and> my_df self' = my_df letters_table)
   \<and> recode ''c'' True (Some []) letters_table = recode ''c'' True None letters_table
   \<and> (\<exists>self'. recode ''c'' True (Some []) letters_table = Inr self'
         \<and> column_values (my_df self') ''c'' = [IntV 0, IntV 1, IntV 0, IntV 2]
         \<and> (ERROR, Too_many_recoding_schemes) \<notin> set (new_records letters_table self'))"
proof -
  note t = presence_is_truthiness [of letters_table "''c''"]
  have 1: "\<exists>self'. create_df (Some []) None letters_table = Inr self'
       \<and> create_df None (Some []) letters_table = Inr self'
       \<and> my_df self' = my_df letters_table"
    using t by blast
  have 2: "recode ''c'' True (Some []) letters_table = recode ''c'' True None letters_table"
    using t letters_table_facts(2) by blast
  have "\<exists>self'. recode ''c'' True (Some []) letters_table = Inr self'
         \<and> column_values (my_df self') ''c''
             = map (encounter_code (column_values (my_df letters_table) ''c''))
                 (column_values (my_df letters_table) ''c'')
         \<and> (ERROR, Too_many_recoding_schemes) \<notin> set (new_records letters_table self')"
    using t letters_table_facts(1) by blast
  then have 3: "\<exists>self'. recode ''c'' True (Some []) letters_table = Inr self'
         \<and> column_values (my_df self') ''c'' = [IntV 0, IntV 1, IntV 0, IntV 2]
         \<and> (ERROR, Too_many_recoding_schemes) \<notin> set (new_records letters_table self')"
    by (simp add: letters_table_facts)
  show ?thesis
    using 1 2 3 by blast
qed

text \<open>
  Claim C5 says that a call with both arguments supplied is skipped. An argument that is
  supplied but empty does not count as given: with \<open>auto=True, customized={}\<close> the
  column is recoded, and with \<open>dictionary={}, path="t.csv"\<close> the file is loaded.
\<close>

theorem exclusive_arguments_as_supplied_counterexample:
  "supplied (Some ([] :: (cell \<times> cell) list))
   \<and> map_sum id my_df (recode ''c'' True (Some []) letters_table)
       = Inr \<lparr>columns = [''c''], index = [IntV 0, IntV 1, IntV 2, IntV 3],
               data = [[IntV 0], [IntV 1], [IntV 0], [IntV 2]]\<rparr>
   \<and> map_sum id my_df (recode ''c'' True (Some []) letters_table) \<noteq> Inr (my_df letters_table)
   \<and> supplied (Some ([] :: (string \<times> cell list) list)) \<and> supplied (Some ''t.csv'')
   \<and> map_sum id my_df (create_df (Some []) (Some ''t.csv'') one_file)
       = Inr \<lparr>columns = [''x''], index = [IntV 0], data = [[IntV 1]]\<rparr>
   \<and> map_sum id my_df (create_df (Some []) (Some ''t.csv'') one_file) \<noteq> Inr (my_df one_file)"
  by code_simp

text \<open>
  Claim C5, amended. When neither or both of \<open>dictionary\<close>/\<open>path\<close> are
  truthy (given and not empty), \<open>create_df\<close> logs an error and skips the whole
  operation; when neither or both of \<open>auto\<close>/\<open>customized\<close> are truthy,
  \<open>recode\<close> on an existing column does the same. The table, the stored row count
  and the files are exactly as before the call.
\<close>

theorem exclusive_arguments_by_truthiness:
  "(truthy dictionary = truthy path \<longrightarrow>
      (\<exists>self'. create_df dictionary path self = Inr self'
         \<and> my_df self' = my_df self \<and> my_df_rows self' = my_df_rows self
         \<and> files self' = files self
         \<and> new_records self self'
             = [(INFO, Method_invoked ''create_df''),
                (ERROR, if truthy dictionary then Too_many_import_schemes else No_import_scheme)]))
   \<and> (c \<in> set (columns (my_df self)) \<and> truthy customized = auto \<longrightarrow>
      (\<exists>self'. recode c auto customized self = Inr self'
         \<and> my_df self' = my_df self \<and> my_df_rows self' = my_df_rows self
         \<and> files self' = files self
         \<and> new_records self self'
             = [(INFO, Method_invoked ''recode''), (DEBUG, Column_existent c),
                (ERROR, if auto then Too_many_recoding_schemes else No_recoding_scheme)]))"
  by (simp add: create_df_guard recode_guard)



theorem exclusive_arguments_by_truthiness_witness:
  "(\<exists>self'. create_df None None letters_table = Inr self'
       \<and> my_df self' = my_df letters_table
       \<and> new_records letters_table self'
           = [(INFO, Method_invoked ''create_df''), (ERROR, No_import_scheme)])
   \<and> (\<exists>self'. create_df (Some [(''x'', [IntV 1])]) (Some ''t.csv'') letters_table = Inr self'
       \<and> my_df self' = my_df letters_table
       \<and> new_records letters_table self'
           = [(INFO, Method_invoked ''create_df''), (ERROR, Too_many_import_schemes)])
   \<and> (\<exists>self'. recode ''c'' False None letters_table = Inr self'
       \<and> my_df self' = my_df letters_table
       \<and> new_records letters_table self'
           = [(INFO, Method_invoked ''recode''), (DEBUG, Column_existent ''c''),
              (ERROR, No_recoding_scheme)])
   \<and> (\<exists>self'. recode ''c'' True (Some [(StrV ''a'', StrV ''X'')]) letters_table = Inr self'
       \<and> my_df self' = my_df letters_table
       \<and> new_records letters_table self'
           = [(INFO, Method_invoked ''recode''), (DEBUG, Column_existent ''c''),
              (ERROR, Too_many_recoding_schemes)])"
proof -
  note neither = exclusive_arguments_by_truthiness [of None None letters_table "''c''" None False]
  note both = exclusive_arguments_by_truthiness
          [of "Some [(''x'', [IntV 1])]" "Some ''t.csv''" letters_table "''c''"
              "Some [(StrV ''a'', StrV ''X'')]" True]
  have c: "''c'' \<in> set (columns (my_df letters_table))"
    by (rule letters_table_facts)
  have 1: "\<exists>self'. create_df None None letters_table = Inr self'
       \<and> my_df self' = my_df letters_table
       \<and> new_records letters_table self'
           = [(INFO, Method_invoked ''create_df''), (ERROR, No_import_scheme)]"
    using neither by auto
  have 2: "\<exists>self'. create_df (Some [(''x'', [IntV 1])]) (Some ''t.csv'') letters_table = Inr self'
       \<and> my_df self' = my_df letters_table
       \<and> new_records letters_table self'
           = [(INFO, Method_invoked ''create_df''), (ERROR, Too_many_import_schemes)]"
    using both by auto
  have 3: "\<exists>self'. recode ''c'' False None letters_table = Inr self'
       \<and> my_df self' = my_df letters_table
       \<and> new_records letters_table self'
           = [(INFO, Method_invoked ''recode''), (DEBUG, Column_existent ''c''),
              (ERROR, No_recoding_scheme)]"
    using neither c by auto
  have 4: "\<exists>self'. recode ''c'' True (Some [(StrV ''a'', StrV ''X'')]) letters_table = Inr self'
       \<and> my_df self' = my_df letters_table
       \<and> new_records letters_table self'
           = [(INFO, Method_invoked ''recode''), (DEBUG, Column_existent ''c''),
              (ERROR, Too_many_recoding_schemes)]"
    using both c by auto
  show ?thesis
    using 1 2 3 4 by blast
qed

section \<open>The stored row count\<close>

lemma shape0_simps [simp]:
  "shape0 (replace_column c d df) = shape0 df"
  "shape0 (drop_column c df) = shape0 df"
  "shape0 (rename_column old new df) = shape0 df"
  by (simp_all add: shape0_def replace_column_def drop_column_def rename_column_def)




lemma customized_loop_frame:
  "my_df (snd (customized_loop items uniq d n self)) = my_df self
   \<and> my_df_rows (snd (customized_loop items uniq d n self)) = my_df_rows self
   \<and> files (snd (customized_loop items uniq d n self)) = files self"
  by (induction items arbitrary: d n self) auto








lemma dropped_figures_simps [simp]:
  "dropped_figures [] = []"
  "dropped_figures (r # lg) = (case dropped_figure r of None \<Rightarrow> dropped_figures lg
                               | Some n \<Rightarrow> n # dropped_figures lg)"
  "dropped_figures (lg @ lg') = dropped_figures lg @ dropped_figures lg'"
  by (simp_all add: dropped_figures_def map_filter_def split: option.splits)



















section \<open>Saving and loading\<close>

lemma file_extension_out: "file_extension ''out.csv'' = ''csv''"
  by code_simp

lemma from_dict_x:
  "from_dict [(''x'', [IntV 1, IntV 2])]
     = Inr \<lparr>columns = [''x''], index = [IntV 0, IntV 1], data = [[IntV 1], [IntV 2]]\<rparr>"
  by code_simp

lemma to_csv_x:
  "to_csv \<lparr>columns = [''x''], index = [IntV 0, IntV 1], data = [[IntV 1], [IntV 2]]\<rparr>
     = CsvFile [['''', ''x''], [''0'', ''1''], [''1'', ''2'']]"
  by code_simp

lemma read_csv_x:
  "read_csv (Some (CsvFile [['''', ''x''], [''0'', ''1''], [''1'', ''2'']]))
     = Inr \<lparr>columns = [''Unnamed: 0'', ''x''], index = [IntV 0, IntV 1],
             data = [[IntV 0, IntV 1], [IntV 1, IntV 2]]\<rparr>"
  by code_simp

text \<open>
  Claim C8. On any instance, \<open>create_df(dictionary={"x":[1,2]})\<close>, then
  \<open>save_df(path="out.csv")\<close>, then \<open>create_df(path="out.csv")\<close> run without
  an exception and leave a table with a column labelled \<open>x\<close> holding
  \<open>[1, 2]\<close>. The only other column, \<open>Unnamed: 0\<close>, carries the row labels
  that were saved with the table.
\<close>

theorem csv_round_trip:
  "\<exists>self'. run [Create_df (Some [(''x'', [IntV 1, IntV 2])]) None, Save_df ''out.csv'',
                Create_df None (Some ''out.csv'')] self = Inr self'
     \<and> columns (my_df self') = [''Unnamed: 0'', ''x'']
     \<and> ''x'' \<in> set (columns (my_df self'))
     \<and> column_values (my_df self') ''x'' = [IntV 1, IntV 2]
     \<and> column_values (my_df self') ''Unnamed: 0'' = [IntV 0, IntV 1]
     \<and> index (my_df self') = [IntV 0, IntV 1]"
  by (simp add: create_df_def save_df_def Let_def file_extension_out from_dict_x to_csv_x
        read_csv_x column_values_def row_cells_def)

section \<open>Uniqueness of labels\<close>







































section \<open>Recoding by a given mapping\<close>

lemma py_in_iff: "py_in k xs \<longleftrightarrow> k \<noteq> NaN \<and> k \<in> set xs"
  by (auto simp add: py_in_def py_eq_def list_ex_iff)

lemma py_in_pd_unique: "py_in k (pd_unique xs) \<longleftrightarrow> k \<noteq> NaN \<and> k \<in> set xs"
  by (simp add: py_in_iff pd_unique_def set_unique_from)

lemma customized_loop_skips:
  "k \<notin> fst ` set items \<or> \<not> py_in k uniq \<Longrightarrow>
     map_of (fst (fst (customized_loop items uniq d n self))) k = map_of d k"
  by (induction items arbitrary: d n self) (auto simp add: update_conv')

lemma customized_loop_applies:
  "distinct (map fst items) \<Longrightarrow> (k, w) \<in> set items \<Longrightarrow> py_in k uniq \<Longrightarrow>
     map_of (fst (fst (customized_loop items uniq d n self))) k = Some w"
proof (induction items arbitrary: d n self)
  case Nil
  then show ?case by simp
next
  case (Cons kv items)
  obtain k' w' where kv: "kv = (k', w')" by (cases kv)
  show ?case
  proof (cases "k' = k")
    case True
    then have w: "w' = w" and notin: "k \<notin> fst ` set items"
      using Cons.prems kv by force+
    show ?thesis
      using True w kv Cons.prems(3) customized_loop_skips [of k items uniq] notin
      by (simp add: update_conv')
  next
    case False
    then have "(k, w) \<in> set items" and "distinct (map fst items)"
      using Cons.prems kv by auto
    then show ?thesis
      using Cons.IH Cons.prems(3) kv by simp
  qed
qed

lemma customized_loop_logged:
  "logged (snd (customized_loop items uniq d n self))
     = logged self @
       map (\<lambda>(k, w). if py_in k uniq then (DEBUG, Value_existent k)
                      else (ERROR, Value_nonexistent k)) items"
  by (induction items arbitrary: d n self) auto

lemma corr_dict_replaces:
  assumes "distinct (map fst m)" and "v \<in> set vals"
  shows "replace_cell (fst (fst (customized_loop m (pd_unique vals) [] n self))) v
     = (if v = NaN then v else replace_cell m v)"
proof (cases "v \<noteq> NaN \<and> v \<in> fst ` set m")
  case True
  then obtain w where w: "(v, w) \<in> set m" by auto
  then have "map_of m v = Some w"
    using assms(1) by simp
  moreover have "py_in v (pd_unique vals)"
    using True assms(2) by (simp add: py_in_pd_unique)
  ultimately show ?thesis
    using customized_loop_applies [OF assms(1) w, of "pd_unique vals" "[]" n self] True
    by (simp add: replace_cell_def)
next
  case False
  then have "v \<notin> fst ` set m \<or> \<not> py_in v (pd_unique vals)"
    by (auto simp add: py_in_pd_unique)
  then have "map_of (fst (fst (customized_loop m (pd_unique vals) [] n self))) v = None"
    using customized_loop_skips [of v m "pd_unique vals" "[]" n self] by simp
  moreover have "v \<noteq> NaN \<Longrightarrow> map_of m v = None"
    using False by (simp add: map_of_eq_None_iff)
  ultimately show ?thesis
    by (auto simp add: replace_cell_def)
qed

lemma recode_customized_outcome:
  assumes "count_list (columns (my_df self)) c = 1" and "m \<noteq> []"
  shows "\<exists>self' n. recode c False (Some m) self = Inr self'
      \<and> my_df self' = replace_column c
           (fst (fst (customized_loop m (pd_unique (column_values (my_df self) c)) [] 0
              (emit DEBUG (Unique_values_in c (length (pd_unique (column_values (my_df self) c))))
                (emit DEBUG (Column_existent c) (emit INFO (Method_invoked ''recode'') self))))))
           (my_df self)
      \<and> (\<exists>plan. logged self' = logged self @
           [(INFO, Method_invoked ''recode''), (DEBUG, Column_existent c),
            (DEBUG, Unique_values_in c (length (pd_unique (column_values (my_df self) c))))] @
           map (\<lambda>(k, w). if py_in k (pd_unique (column_values (my_df self) c))
                          then (DEBUG, Value_existent k) else (ERROR, Value_nonexistent k)) m @
           [(DEBUG, User_recoded c n), (INFO, Coding_plan plan)])"
proof -
  have c: "c \<in> set (columns (my_df self))"
    using assms(1) count_list_0_iff [of "columns (my_df self)" c] by auto
  obtain kv m' where m: "m = kv # m'"
    using assms(2) by (cases m) auto
  show ?thesis
    using assms(1) c unfolding m
    by (simp add: recode_def unique_of_column_def Let_def customized_loop_frame
          customized_loop_logged del: customized_loop.simps)
qed


lemma errors_of_customized_loop:
  "filter (\<lambda>r. fst r = ERROR)
     (map (\<lambda>(k, w). if py_in k uniq then (DEBUG, Value_existent k)
                    else (ERROR, Value_nonexistent k)) m)
   = map (\<lambda>k. (ERROR, Value_nonexistent k)) (filter (\<lambda>k. \<not> py_in k uniq) (map fst m))"
  by (induction m) auto

text \<open>
  Claim C7 says that every entry of the mapping whose key occurs among the values of the
  column is applied. The method decides occurrence by \<open>key in pd.unique(...)\<close>,
  and \<open>NaN\<close> is not equal to itself: in a column that holds a missing value, the
  entry with the key \<open>NaN\<close> is reported as non-existent and the missing cells stay,
  whereas the automatic mode recodes the missing value like any other.
\<close>

theorem recode_customized_missing_key:
  "NaN \<in> set (column_values (my_df gaps_table) ''c'')
   \<and> map_sum id (\<lambda>s. column_values (my_df s) ''c'')
         (recode ''c'' False (Some [(NaN, IntV 0)]) gaps_table)
       = Inr [NaN, StrV ''a'']
   \<and> map_sum id (new_records gaps_table)
         (recode ''c'' False (Some [(NaN, IntV 0)]) gaps_table)
       = Inr [(INFO, Method_invoked ''recode''), (DEBUG, Column_existent ''c''),
              (DEBUG, Unique_values_in ''c'' 2), (ERROR, Value_nonexistent NaN),
              (DEBUG, User_recoded ''c'' 0), (INFO, Coding_plan [])]
   \<and> map_sum id (\<lambda>s. column_values (my_df s) ''c'') (recode ''c'' True None gaps_table)
       = Inr [IntV 0, IntV 1]"
  by code_simp

text \<open>
  What \<open>recode(col_name=c, customized=m)\<close> does on a column named by exactly one
  label, for a non-empty mapping: it returns normally; every cell that is a key of the
  mapping and not missing is replaced by the value of that key, every other cell and
  every other column stays; and the errors logged are, in the order of the mapping, one
  for each key that is \<open>NaN\<close> or does not occur in the column.
\<close>

theorem recode_customized_present_keys:
  assumes "count_list (columns (my_df self)) c = 1" and "m \<noteq> []" and "distinct (map fst m)"
  shows "\<exists>self'. recode c False (Some m) self = Inr self'
     \<and> column_values (my_df self') c
         = map (\<lambda>v. if v = NaN then v else replace_cell m v) (column_values (my_df self) c)
     \<and> (\<forall>c'. c' \<noteq> c \<longrightarrow> column_values (my_df self') c' = column_values (my_df self) c')
     \<and> filter (\<lambda>r. fst r = ERROR) (new_records self self')
         = map (\<lambda>k. (ERROR, Value_nonexistent k))
             (filter (\<lambda>k. k = NaN \<or> k \<notin> set (column_values (my_df self) c)) (map fst m))"
proof -
  let ?vals = "column_values (my_df self) c"
  let ?s = "emit DEBUG (Unique_values_in c (length (pd_unique ?vals)))
             (emit DEBUG (Column_existent c) (emit INFO (Method_invoked ''recode'') self))"
  let ?corr = "fst (fst (customized_loop m (pd_unique ?vals) [] 0 ?s))"
  let ?f = "\<lambda>(k, w). if py_in k (pd_unique ?vals) then (DEBUG, Value_existent k)
                        else (ERROR, Value_nonexistent k)"
  obtain self' n plan where r: "recode c False (Some m) self = Inr self'"
    and df: "my_df self' = replace_column c ?corr (my_df self)"
    and lg: "logged self' = logged self @
           [(INFO, Method_invoked ''recode''), (DEBUG, Column_existent c),
            (DEBUG, Unique_values_in c (length (pd_unique ?vals)))] @
           map ?f m @ [(DEBUG, User_recoded c n), (INFO, Coding_plan plan)]"
    using recode_customized_outcome [OF assms(1,2)] by blast
  have "map (replace_cell ?corr) ?vals = map (\<lambda>v. if v = NaN then v else replace_cell m v) ?vals"
    by (rule map_cong) (simp_all add: corr_dict_replaces [OF assms(3)])
  then have 1: "column_values (my_df self') c
      = map (\<lambda>v. if v = NaN then v else replace_cell m v) ?vals"
    by (simp add: df column_values_replace_column)
  have 2: "\<forall>c'. c' \<noteq> c \<longrightarrow> column_values (my_df self') c' = column_values (my_df self) c'"
    by (simp add: df column_values_replace_column_other)
  have "new_records self self' =
           [(INFO, Method_invoked ''recode''), (DEBUG, Column_existent c),
            (DEBUG, Unique_values_in c (length (pd_unique ?vals)))] @
           map ?f m @ [(DEBUG, User_recoded c n), (INFO, Coding_plan plan)]"
    using lg by (rule new_records_append)
  then have "filter (\<lambda>r. fst r = ERROR) (new_records self self')
      = filter (\<lambda>r. fst r = ERROR) (map ?f m)"
    by simp
  also have "\<dots> = map (\<lambda>k. (ERROR, Value_nonexistent k))
      (filter (\<lambda>k. \<not> py_in k (pd_unique ?vals)) (map fst m))"
    by (rule errors_of_customized_loop)
  also have "\<dots> = map (\<lambda>k. (ERROR, Value_nonexistent k))
      (filter (\<lambda>k. k = NaN \<or> k \<notin> set ?vals) (map fst m))"
    by (simp add: py_in_pd_unique)
  finally have 3: "filter (\<lambda>r. fst r = ERROR) (new_records self self')
      = map (\<lambda>k. (ERROR, Value_nonexistent k))
          (filter (\<lambda>k. k = NaN \<or> k \<notin> set ?vals) (map fst m))" .
  show ?thesis
    using r 1 2 3 by blast
qed

theorem recode_customized_present_keys_witness:
  "\<exists>self'. recode ''c'' False (Some [(StrV ''a'', StrV ''X''), (StrV ''zzz'', StrV ''Y'')])
              letters_table = Inr self'
     \<and> column_values (my_df self') ''c'' = [StrV ''b'', StrV ''X'', StrV ''b'', StrV ''c'']
     \<and> filter (\<lambda>r. fst r = ERROR) (new_records letters_table self')
         = [(ERROR, Value_nonexistent (StrV ''zzz''))]"
proof -
  have "\<exists>self'. recode ''c'' False (Some [(StrV ''a'', StrV ''X''), (StrV ''zzz'', StrV ''Y'')])
              letters_table = Inr self'
     \<and> column_values (my_df self') ''c''
         = map (\<lambda>v. if v = NaN then v
                      else replace_cell [(StrV ''a'', StrV ''X''), (StrV ''zzz'', StrV ''Y'')] v)
             (column_values (my_df letters_table) ''c'')
     \<and> filter (\<lambda>r. fst r = ERROR) (new_records letters_table self')
         = map (\<lambda>k. (ERROR, Value_nonexistent k))
             (filter (\<lambda>k. k = NaN \<or> k \<notin> set (column_values (my_df letters_table) ''c''))
                (map fst [(StrV ''a'', StrV ''X''), (StrV ''zzz'', StrV ''Y'')]))"
    using recode_customized_present_keys
      [of letters_table "''c''" "[(StrV ''a'', StrV ''X''), (StrV ''zzz'', StrV ''Y'')]"]
      letters_table_facts(1)
    by auto
  then show ?thesis
    by (simp add: letters_table_facts replace_cell_def)
qed

end
